theory Spec2Isabelle
  imports Complex_Main "HOL-Library.Monad_Syntax"
begin

section \<open>TactiMesh: data model\<close>

text \<open>
  The development follows \<^verbatim>\<open>src/tactimesh.py\<close>. Python \<^verbatim>\<open>float\<close> values (timestamps,
  coordinates) are modelled as finite real numbers, \<^verbatim>\<open>int\<close> as \<^typ>\<open>int\<close>, \<^verbatim>\<open>str\<close> as
  \<^typ>\<open>string\<close>. The clock (\<^verbatim>\<open>time.time()\<close>) and fresh identifiers (\<^verbatim>\<open>uuid.uuid4()\<close>)
  are inputs of the functions that read them.

  A value of \<^verbatim>\<open>Dict[str, Any]\<close> that travels through \<^verbatim>\<open>json\<close> is a JSON value; a
  dictionary keeps its insertion order, so it is an association list.
\<close>

datatype json =
    JNull
  | JBool bool
  | JInt int
  | JFloat real
  | JStr string
  | JList "json list"
  | JDict "(string \<times> json) list"

text \<open>\<^verbatim>\<open>@dataclass class NodeIdentity\<close>\<close>

record NodeIdentity =
  node_id :: string
  callsign :: string
  unit :: string
  rank :: string
  role :: string
  clearance_level :: int
  pubkey :: string
  verify_key :: string
  created :: real

text \<open>
  \<^verbatim>\<open>@dataclass class Position\<close>; the field \<^verbatim>\<open>node_id\<close> is \<open>pos_node_id\<close> here. Python
  does not check the types of the fields, and one function below builds \<^verbatim>\<open>Position\<close>
  objects whose \<^verbatim>\<open>timestamp\<close> and \<^verbatim>\<open>mgrs\<close> hold values of the other field's type. The
  record therefore leaves the types of these two fields open; \<open>Position\<close> is the
  object with the declared types.
\<close>

record ('t, 'g) Position_object =
  pos_node_id :: string
  lat :: real
  lon :: real
  alt :: real
  accuracy :: real
  speed :: real
  course :: real
  timestamp :: 't
  mgrs :: 'g

type_synonym Position = "(real, string) Position_object"

text \<open>\<^verbatim>\<open>@dataclass class TacticalMessage\<close>; \<^verbatim>\<open>timestamp\<close> is \<open>msg_timestamp\<close> here.\<close>

record TacticalMessage =
  msg_id :: string
  msg_type :: string
  topic :: string
  sender :: string
  recipients :: "string list"
  classification :: string
  priority :: int
  msg_timestamp :: real
  expires :: "real option"
  payload :: "(string \<times> json) list"
  attachments :: "string list"
  signature :: "string option"

text \<open>\<^verbatim>\<open>@dataclass class GeofenceZone\<close>, which is also the row of the \<^verbatim>\<open>geofences\<close> table.\<close>

record GeofenceZone =
  zone_id :: string
  zone_name :: string
  zone_type :: string
  polygon :: string
  zone_classification :: string
  created_by :: string
  zone_created :: real
  active :: bool

section \<open>The store (\<^verbatim>\<open>TacticalDatabase\<close>)\<close>

text \<open>
  The rows of the tables created by \<^verbatim>\<open>_initialize_database\<close>. A node row is the identity
  plus \<^verbatim>\<open>last_seen\<close> and \<^verbatim>\<open>status\<close>; a message row is the message plus the two flag
  columns. The \<^verbatim>\<open>TEXT\<close> columns \<^verbatim>\<open>recipients\<close>, \<^verbatim>\<open>payload\<close> and \<^verbatim>\<open>attachments\<close> hold the
  \<^verbatim>\<open>json.dumps\<close> text of the value; the row keeps the value itself.
\<close>

record node_row = NodeIdentity +
  last_seen :: real
  status :: string

record message_row = TacticalMessage +
  delivered :: bool
  acknowledged :: bool

record db =
  nodes :: "node_row list"
  positions :: "Position list"
  messages :: "message_row list"
  geofences :: "GeofenceZone list"

definition empty_db :: db where
  "empty_db = \<lparr>nodes = [], positions = [], messages = [], geofences = []\<rparr>"

text \<open>
  \<^verbatim>\<open>INSERT OR REPLACE\<close> on a table with a primary key: the rows that conflict with the
  new row on the key are deleted, then the new row is inserted.
\<close>

definition insert_or_replace :: "('r \<Rightarrow> 'k) \<Rightarrow> 'r \<Rightarrow> 'r list \<Rightarrow> 'r list" where
  "insert_or_replace key r rows = filter (\<lambda>x. key x \<noteq> key r) rows @ [r]"

text \<open>
  \<^verbatim>\<open>upsert_node\<close>: the primary key is \<^verbatim>\<open>node_id\<close>; \<^verbatim>\<open>last_seen\<close> is the clock and
  \<^verbatim>\<open>status\<close>, not among the inserted columns, takes its default \<^verbatim>\<open>'ACTIVE'\<close>.
\<close>

definition upsert_node :: "db \<Rightarrow> real \<Rightarrow> NodeIdentity \<Rightarrow> db" where
  "upsert_node d now node =
     d\<lparr>nodes := insert_or_replace node_id
        \<lparr>node_id = node_id node, callsign = callsign node, unit = unit node,
         rank = rank node, role = role node, clearance_level = clearance_level node,
         pubkey = pubkey node, verify_key = verify_key node, created = created node,
         last_seen = now, status = ''ACTIVE''\<rparr> (nodes d)\<rparr>"

text \<open>
  \<^verbatim>\<open>upsert_position\<close>: the primary key is \<^verbatim>\<open>node_id\<close>. The table declares
  \<^verbatim>\<open>FOREIGN KEY (node_id) REFERENCES nodes(node_id)\<close>, but every operation opens its own
  connection with \<^verbatim>\<open>sqlite3.connect\<close> and none issues \<^verbatim>\<open>PRAGMA foreign_keys = ON\<close>, so
  SQLite does not check the reference: the statement looks at the positions table only.
\<close>

definition upsert_position :: "db \<Rightarrow> Position \<Rightarrow> db" where
  "upsert_position d position =
     d\<lparr>positions := insert_or_replace pos_node_id position (positions d)\<rparr>"

text \<open>
  \<^verbatim>\<open>store_message\<close>: the primary key of \<^verbatim>\<open>messages\<close> is \<^verbatim>\<open>msg_id\<close> alone; the two flag
  columns are not among the inserted ones and take their default \<^verbatim>\<open>FALSE\<close>. The method
  returns nothing.
\<close>

definition store_message :: "db \<Rightarrow> TacticalMessage \<Rightarrow> db" where
  "store_message d message =
     d\<lparr>messages := insert_or_replace msg_id
        \<lparr>msg_id = msg_id message, msg_type = msg_type message, topic = topic message,
         sender = sender message, recipients = recipients message,
         classification = classification message, priority = priority message,
         msg_timestamp = msg_timestamp message, expires = expires message,
         payload = payload message, attachments = attachments message,
         signature = signature message, delivered = False, acknowledged = False\<rparr>
        (messages d)\<rparr>"

text \<open>
  \<^verbatim>\<open>get_current_positions\<close>: the join of positions with nodes on \<^verbatim>\<open>node_id\<close>, filtered
  by \<^verbatim>\<open>p.timestamp > cutoff AND n.status = 'ACTIVE'\<close>, ordered by timestamp descending.
  \<open>current_position_rows\<close> is the list that \<^verbatim>\<open>cursor.fetchall()\<close> returns.
\<close>

definition current_position_rows :: "db \<Rightarrow> real \<Rightarrow> int \<Rightarrow> Position list" where
  "current_position_rows d now max_age_seconds =
     (let cutoff_time = now - real_of_int max_age_seconds in
      rev (sort_key timestamp
        (concat (map (\<lambda>p. map (\<lambda>n. p)
                   (filter (\<lambda>n. pos_node_id p = node_id n \<and>
                                 timestamp p > cutoff_time \<and> status n = ''ACTIVE'')
                      (nodes d)))
           (positions d)))))"

text \<open>
  Each row is the tuple of the selected columns, in the order of the \<^verbatim>\<open>SELECT\<close>:
  \<^verbatim>\<open>node_id, lat, lon, alt, accuracy, speed, course, mgrs, timestamp\<close>. The result is
  \<^verbatim>\<open>[Position(*row) for row in ...]\<close>, and the positional parameters of \<^verbatim>\<open>Position\<close>
  are its fields in the order of the class:
  \<^verbatim>\<open>node_id, lat, lon, alt, accuracy, speed, course, timestamp, mgrs\<close>. So the eighth
  column, \<^verbatim>\<open>mgrs\<close>, becomes the field \<^verbatim>\<open>timestamp\<close> and the ninth column,
  \<^verbatim>\<open>timestamp\<close>, becomes the field \<^verbatim>\<open>mgrs\<close>.
\<close>

definition Position_of_row :: "Position \<Rightarrow> (string, real) Position_object" where
  "Position_of_row row =
     \<lparr>pos_node_id = pos_node_id row, lat = lat row, lon = lon row, alt = alt row,
      accuracy = accuracy row, speed = speed row, course = course row,
      timestamp = mgrs row, mgrs = timestamp row\<rparr>"

definition get_current_positions ::
  "db \<Rightarrow> real \<Rightarrow> int \<Rightarrow> (string, real) Position_object list" where
  "get_current_positions d now max_age_seconds =
     map Position_of_row (current_position_rows d now max_age_seconds)"

section \<open>JSON text (\<^verbatim>\<open>json.dumps(obj, separators=(',', ':'))\<close>)\<close>

text \<open>
  The serialiser of the standard library, written out for the values above: no
  whitespace, dictionary entries in insertion order, strings escaped as
  \<^verbatim>\<open>ensure_ascii\<close> does (a string is a list of code points below 256). The text of a
  float is that of \<^verbatim>\<open>float.__repr__\<close>, which is the parameter \<open>fr\<close>.
\<close>

fun digits_of :: "nat \<Rightarrow> string" where
  "digits_of n = (if n < 10 then [char_of (48 + n)]
                  else digits_of (n div 10) @ [char_of (48 + n mod 10)])"

definition str_int :: "int \<Rightarrow> string" where
  "str_int i = (if i < 0 then CHR ''-'' # digits_of (nat (- i)) else digits_of (nat i))"

definition hex_digit :: "nat \<Rightarrow> char" where
  "hex_digit n = (if n < 10 then char_of (48 + n) else char_of (87 + n))"

definition escape_char :: "char \<Rightarrow> string" where
  "escape_char c =
     (if c = CHR 0x22 then [CHR 0x5C, CHR 0x22]
      else if c = CHR 0x5C then [CHR 0x5C, CHR 0x5C]
      else if c = CHR 0x0A then [CHR 0x5C, CHR ''n'']
      else if c = CHR 0x0D then [CHR 0x5C, CHR ''r'']
      else if c = CHR 0x09 then [CHR 0x5C, CHR ''t'']
      else if c = CHR 0x08 then [CHR 0x5C, CHR ''b'']
      else if c = CHR 0x0C then [CHR 0x5C, CHR ''f'']
      else if of_char c < (32::nat) \<or> (126::nat) < of_char c
        then [CHR 0x5C, CHR ''u'', CHR ''0'', CHR ''0'',
              hex_digit (of_char c div 16), hex_digit (of_char c mod 16)]
      else [c])"

definition encode_basestring_ascii :: "string \<Rightarrow> string" where
  "encode_basestring_ascii s = CHR 0x22 # concat (map escape_char s) @ [CHR 0x22]"

fun join :: "string \<Rightarrow> string list \<Rightarrow> string" where
  "join sep [] = []"
| "join sep [x] = x"
| "join sep (x # y # ys) = x @ sep @ join sep (y # ys)"

fun dumps :: "(real \<Rightarrow> string) \<Rightarrow> json \<Rightarrow> string" where
  "dumps fr JNull = ''null''"
| "dumps fr (JBool b) = (if b then ''true'' else ''false'')"
| "dumps fr (JInt i) = str_int i"
| "dumps fr (JFloat r) = fr r"
| "dumps fr (JStr s) = encode_basestring_ascii s"
| "dumps fr (JList xs) = ''['' @ join '','' (map (dumps fr) xs) @ '']''"
| "dumps fr (JDict kvs) =
     ''{'' @ join '',''
              (map (\<lambda>kv. encode_basestring_ascii (fst kv) @ '':'' @ dumps fr (snd kv)) kvs)
       @ ''}''"

text \<open>\<^verbatim>\<open>d[k] = v\<close> keeps the place of a key that is present; \<^verbatim>\<open>d.pop(k, None)\<close>.\<close>

fun dict_set :: "(string \<times> json) list \<Rightarrow> string \<Rightarrow> json \<Rightarrow> (string \<times> json) list" where
  "dict_set [] k v = [(k, v)]"
| "dict_set (p # ps) k v = (if fst p = k then (k, v) # ps else p # dict_set ps k v)"

definition dict_pop :: "(string \<times> json) list \<Rightarrow> string \<Rightarrow> (string \<times> json) list" where
  "dict_pop d k = filter (\<lambda>p. fst p \<noteq> k) d"

text \<open>Python truth value of a JSON value (\<^verbatim>\<open>if not signature\<close>).\<close>

fun truthy :: "json \<Rightarrow> bool" where
  "truthy JNull = False"
| "truthy (JBool b) = b"
| "truthy (JInt i) = (i \<noteq> 0)"
| "truthy (JFloat r) = (r \<noteq> 0)"
| "truthy (JStr s) = (s \<noteq> [])"
| "truthy (JList xs) = (xs \<noteq> [])"
| "truthy (JDict kvs) = (kvs \<noteq> [])"

subsection \<open>\<^verbatim>\<open>dataclasses.asdict\<close> and the dataclass constructors\<close>

definition asdict_identity :: "NodeIdentity \<Rightarrow> json" where
  "asdict_identity n =
     JDict [(''node_id'', JStr (node_id n)), (''callsign'', JStr (callsign n)),
            (''unit'', JStr (unit n)), (''rank'', JStr (rank n)), (''role'', JStr (role n)),
            (''clearance_level'', JInt (clearance_level n)), (''pubkey'', JStr (pubkey n)),
            (''verify_key'', JStr (verify_key n)), (''created'', JFloat (created n))]"

definition asdict_message :: "TacticalMessage \<Rightarrow> (string \<times> json) list" where
  "asdict_message m =
     [(''msg_id'', JStr (msg_id m)), (''msg_type'', JStr (msg_type m)),
      (''topic'', JStr (topic m)), (''sender'', JStr (sender m)),
      (''recipients'', JList (map JStr (recipients m))),
      (''classification'', JStr (classification m)), (''priority'', JInt (priority m)),
      (''timestamp'', JFloat (msg_timestamp m)),
      (''expires'', (case expires m of None \<Rightarrow> JNull | Some e \<Rightarrow> JFloat e)),
      (''payload'', JDict (payload m)),
      (''attachments'', JList (map JStr (attachments m))),
      (''signature'', (case signature m of None \<Rightarrow> JNull | Some s \<Rightarrow> JStr s))]"

definition asdict_position :: "Position \<Rightarrow> (string \<times> json) list" where
  "asdict_position p =
     [(''node_id'', JStr (pos_node_id p)), (''lat'', JFloat (lat p)), (''lon'', JFloat (lon p)),
      (''alt'', JFloat (alt p)), (''accuracy'', JFloat (accuracy p)),
      (''speed'', JFloat (speed p)), (''course'', JFloat (course p)),
      (''timestamp'', JFloat (timestamp p)), (''mgrs'', JStr (mgrs p))]"

text \<open>
  \<^verbatim>\<open>NodeIdentity(**d)\<close>, \<^verbatim>\<open>TacticalMessage(**d)\<close> and \<^verbatim>\<open>Position(**d)\<close> raise
  \<^verbatim>\<open>TypeError\<close> (here \<open>None\<close>) on a key that is no field and on a missing field without
  default. Python does not check the values; the records here are typed, so a dictionary
  whose values do not have the declared types is outside the model and read as \<open>None\<close>
  too.
\<close>

definition get_str :: "(string \<times> json) list \<Rightarrow> string \<Rightarrow> string option" where
  "get_str d k = (case map_of d k of Some (JStr s) \<Rightarrow> Some s | _ \<Rightarrow> None)"

definition get_int :: "(string \<times> json) list \<Rightarrow> string \<Rightarrow> int option" where
  "get_int d k = (case map_of d k of Some (JInt i) \<Rightarrow> Some i | _ \<Rightarrow> None)"

definition get_float :: "(string \<times> json) list \<Rightarrow> string \<Rightarrow> real option" where
  "get_float d k = (case map_of d k of Some (JFloat r) \<Rightarrow> Some r
                     | Some (JInt i) \<Rightarrow> Some (real_of_int i) | _ \<Rightarrow> None)"

definition get_opt_float :: "(string \<times> json) list \<Rightarrow> string \<Rightarrow> real option option" where
  "get_opt_float d k = (case map_of d k of Some JNull \<Rightarrow> Some None
                         | Some (JFloat r) \<Rightarrow> Some (Some r)
                         | Some (JInt i) \<Rightarrow> Some (Some (real_of_int i)) | _ \<Rightarrow> None)"

definition get_opt_str :: "(string \<times> json) list \<Rightarrow> string \<Rightarrow> string option option" where
  "get_opt_str d k = (case map_of d k of Some JNull \<Rightarrow> Some None
                         | Some (JStr s) \<Rightarrow> Some (Some s) | _ \<Rightarrow> None)"

definition get_dict :: "(string \<times> json) list \<Rightarrow> string \<Rightarrow> (string \<times> json) list option" where
  "get_dict d k = (case map_of d k of Some (JDict kvs) \<Rightarrow> Some kvs | _ \<Rightarrow> None)"

fun str_of :: "json \<Rightarrow> string option" where
  "str_of (JStr s) = Some s"
| "str_of _ = None"

fun strs_of :: "json list \<Rightarrow> string list option" where
  "strs_of [] = Some []"
| "strs_of (j # js) = do { s \<leftarrow> str_of j; ss \<leftarrow> strs_of js; Some (s # ss) }"

definition get_str_list :: "(string \<times> json) list \<Rightarrow> string \<Rightarrow> string list option" where
  "get_str_list d k = (case map_of d k of Some (JList js) \<Rightarrow> strs_of js | _ \<Rightarrow> None)"

definition NodeIdentity_fields :: "string list" where
  "NodeIdentity_fields = [''node_id'', ''callsign'', ''unit'', ''rank'', ''role'',
     ''clearance_level'', ''pubkey'', ''verify_key'', ''created'']"

definition NodeIdentity_of :: "json \<Rightarrow> NodeIdentity option" where
  "NodeIdentity_of j =
     (case j of
        JDict d \<Rightarrow>
          if set (map fst d) = set NodeIdentity_fields then
            do {
              a \<leftarrow> get_str d ''node_id'';
              b \<leftarrow> get_str d ''callsign'';
              c \<leftarrow> get_str d ''unit'';
              e \<leftarrow> get_str d ''rank'';
              f \<leftarrow> get_str d ''role'';
              g \<leftarrow> get_int d ''clearance_level'';
              h \<leftarrow> get_str d ''pubkey'';
              i \<leftarrow> get_str d ''verify_key'';
              k \<leftarrow> get_float d ''created'';
              Some \<lparr>node_id = a, callsign = b, unit = c, rank = e, role = f,
                    clearance_level = g, pubkey = h, verify_key = i, created = k\<rparr>
            }
          else None
      | _ \<Rightarrow> None)"

text \<open>The last field, \<^verbatim>\<open>signature\<close>, has a default; the others are required.\<close>

definition TacticalMessage_fields :: "string list" where
  "TacticalMessage_fields = [''msg_id'', ''msg_type'', ''topic'', ''sender'', ''recipients'',
     ''classification'', ''priority'', ''timestamp'', ''expires'', ''payload'',
     ''attachments'', ''signature'']"

definition TacticalMessage_of :: "(string \<times> json) list \<Rightarrow> TacticalMessage option" where
  "TacticalMessage_of d =
     (if set (map fst d) \<subseteq> set TacticalMessage_fields \<and>
         set (butlast TacticalMessage_fields) \<subseteq> set (map fst d) then
        do {
          a \<leftarrow> get_str d ''msg_id'';
          b \<leftarrow> get_str d ''msg_type'';
          c \<leftarrow> get_str d ''topic'';
          e \<leftarrow> get_str d ''sender'';
          f \<leftarrow> get_str_list d ''recipients'';
          g \<leftarrow> get_str d ''classification'';
          h \<leftarrow> get_int d ''priority'';
          i \<leftarrow> get_float d ''timestamp'';
          j \<leftarrow> get_opt_float d ''expires'';
          k \<leftarrow> get_dict d ''payload'';
          l \<leftarrow> get_str_list d ''attachments'';
          s \<leftarrow> (if ''signature'' \<in> set (map fst d) then get_opt_str d ''signature''
                else Some None);
          Some \<lparr>msg_id = a, msg_type = b, topic = c, sender = e, recipients = f,
                classification = g, priority = h, msg_timestamp = i, expires = j,
                payload = k, attachments = l, signature = s\<rparr>
        }
      else None)"

text \<open>The last field, \<^verbatim>\<open>mgrs\<close>, has the default \<^verbatim>\<open>""\<close>.\<close>

definition Position_fields :: "string list" where
  "Position_fields = [''node_id'', ''lat'', ''lon'', ''alt'', ''accuracy'', ''speed'',
     ''course'', ''timestamp'', ''mgrs'']"

definition Position_of :: "(string \<times> json) list \<Rightarrow> Position option" where
  "Position_of d =
     (if set (map fst d) \<subseteq> set Position_fields \<and>
         set (butlast Position_fields) \<subseteq> set (map fst d) then
        do {
          a \<leftarrow> get_str d ''node_id'';
          b \<leftarrow> get_float d ''lat'';
          c \<leftarrow> get_float d ''lon'';
          e \<leftarrow> get_float d ''alt'';
          f \<leftarrow> get_float d ''accuracy'';
          g \<leftarrow> get_float d ''speed'';
          h \<leftarrow> get_float d ''course'';
          i \<leftarrow> get_float d ''timestamp'';
          m \<leftarrow> (if ''mgrs'' \<in> set (map fst d) then get_str d ''mgrs'' else Some '''');
          Some \<lparr>pos_node_id = a, lat = b, lon = c, alt = e, accuracy = f, speed = g,
                course = h, timestamp = i, mgrs = m\<rparr>
        }
      else None)"

section \<open>The crypto module (\<^verbatim>\<open>MilitaryCrypto\<close>)\<close>

text \<open>
  The functions of \<^verbatim>\<open>base64\<close> and PyNaCl that the module calls are parameters, gathered
  in a record; a call that may raise returns an option, \<open>None\<close> for any exception.
  \<^item> \<open>b64decode\<close>: \<^verbatim>\<open>base64.b64decode\<close> (raises on text that is not base64);
  \<^item> \<open>VerifyKey\<close>, \<open>SigningKey\<close>: the constructors (raise on a key of the wrong length);
  \<^item> \<open>vk_verify k data s\<close>: \<^verbatim>\<open>VerifyKey.verify(data, s)\<close>, false for
    \<^verbatim>\<open>BadSignatureError\<close> or any other exception;
  \<^item> \<open>sk_sign k data\<close>: \<^verbatim>\<open>SigningKey.sign(data).signature\<close>.
\<close>

record nacl =
  b64decode :: "string \<Rightarrow> string option"
  b64encode :: "string \<Rightarrow> string"
  VerifyKey :: "string \<Rightarrow> string option"
  vk_verify :: "string \<Rightarrow> string \<Rightarrow> string \<Rightarrow> bool"
  SigningKey :: "string \<Rightarrow> string option"
  sk_sign :: "string \<Rightarrow> string \<Rightarrow> string"

text \<open>\<^verbatim>\<open>sign_message\<close>: logs and re-raises, so an exception is the result \<open>None\<close>.\<close>

definition sign_message :: "nacl \<Rightarrow> string \<Rightarrow> string \<Rightarrow> string option" where
  "sign_message lib sig_private data =
     do {
       seed \<leftarrow> b64decode lib sig_private;
       signing_key \<leftarrow> SigningKey lib seed;
       Some (b64encode lib (sk_sign lib signing_key data))
     }"

text \<open>
  \<^verbatim>\<open>verify_signature\<close>: the body of the \<^verbatim>\<open>try\<close> is the option computation; the handler
  \<^verbatim>\<open>except (BadSignatureError, Exception)\<close> turns every exception into \<^verbatim>\<open>False\<close>. The
  result is an option so that "raises" (\<open>None\<close>) can be told from "returns".
\<close>

definition verify_signature :: "nacl \<Rightarrow> string \<Rightarrow> string \<Rightarrow> string \<Rightarrow> bool option" where
  "verify_signature lib data sig public_key =
     (case do {
             key_bytes \<leftarrow> b64decode lib public_key;
             verify_key \<leftarrow> VerifyKey lib key_bytes;
             sig_bytes \<leftarrow> b64decode lib sig;
             if vk_verify lib verify_key data sig_bytes then Some () else None
           } of
        Some _ \<Rightarrow> Some True
      | None \<Rightarrow> Some False)"

section \<open>The envelope codec\<close>

text \<open>
  \<^verbatim>\<open>_encode_message\<close>. The envelope is built from \<^verbatim>\<open>asdict(message)\<close>, whose
  \<^verbatim>\<open>signature\<close> entry is \<^verbatim>\<open>None\<close>; it is serialised and signed; the signature is then
  assigned to the existing \<^verbatim>\<open>signature\<close> key and the envelope serialised again.
  \<open>signed_envelope\<close> is the envelope before that last \<^verbatim>\<open>json.dumps\<close>.
\<close>

definition signing_input :: "(real \<Rightarrow> string) \<Rightarrow> NodeIdentity \<Rightarrow> TacticalMessage \<Rightarrow> string" where
  "signing_input fr ident message =
     dumps fr (JDict [(''version'', JStr ''1.0''),
                      (''sender_identity'', asdict_identity ident),
                      (''message'', JDict (asdict_message message))])"

definition signed_envelope ::
  "nacl \<Rightarrow> (real \<Rightarrow> string) \<Rightarrow> NodeIdentity \<Rightarrow> string \<Rightarrow> TacticalMessage \<Rightarrow> json option" where
  "signed_envelope lib fr ident sig_private message =
     do {
       sig \<leftarrow> sign_message lib sig_private (signing_input fr ident message);
       Some (JDict [(''version'', JStr ''1.0''),
                    (''sender_identity'', asdict_identity ident),
                    (''message'', JDict (dict_set (asdict_message message) ''signature''
                        (JStr sig)))])
     }"

definition encode_message ::
  "nacl \<Rightarrow> (real \<Rightarrow> string) \<Rightarrow> NodeIdentity \<Rightarrow> string \<Rightarrow> TacticalMessage \<Rightarrow> string option" where
  "encode_message lib fr ident sig_private message =
     map_option (dumps fr) (signed_envelope lib fr ident sig_private message)"

text \<open>
  \<^verbatim>\<open>_decode_message\<close>, from the parsed envelope on. Every exception of the \<^verbatim>\<open>try\<close> block
  (a missing key, a value that is no dictionary, a constructor that raises) and both
  explicit \<^verbatim>\<open>return None\<close> give \<open>None\<close>. The data whose signature is checked is the
  envelope with the \<^verbatim>\<open>signature\<close> key popped from the message dictionary.
\<close>

definition verify_input :: "(real \<Rightarrow> string) \<Rightarrow> json \<Rightarrow> json \<Rightarrow> (string \<times> json) list \<Rightarrow> string" where
  "verify_input fr version sid_json message_data =
     dumps fr (JDict [(''version'', version),
                      (''sender_identity'', sid_json),
                      (''message'', JDict (dict_pop message_data ''signature''))])"

definition decode_envelope ::
  "nacl \<Rightarrow> (real \<Rightarrow> string) \<Rightarrow> json \<Rightarrow> (TacticalMessage \<times> NodeIdentity) option" where
  "decode_envelope lib fr envelope =
     (case envelope of
        JDict env \<Rightarrow>
          do {
            sid_json \<leftarrow> map_of env ''sender_identity'';
            sender_identity \<leftarrow> NodeIdentity_of sid_json;
            message_data \<leftarrow> get_dict env ''message'';
            let sig = (case map_of message_data ''signature'' of None \<Rightarrow> JNull | Some s \<Rightarrow> s);
            if \<not> truthy sig then None
            else do {
              version \<leftarrow> map_of env ''version'';
              let verify_data = verify_input fr version sid_json message_data;
              ok \<leftarrow> (case sig of
                       JStr s \<Rightarrow> verify_signature lib verify_data s (verify_key sender_identity)
                     | _ \<Rightarrow> Some False);
              if \<not> ok then None
              else do {
                message \<leftarrow> TacticalMessage_of message_data;
                Some (message, sender_identity)
              }
            }
          }
      | _ \<Rightarrow> None)"

section \<open>The node runtime (\<^verbatim>\<open>TactiMeshNode\<close>)\<close>

subsection \<open>The outbound queue: \<^verbatim>\<open>asyncio.PriorityQueue\<close>\<close>

text \<open>
  The queue holds the tuples \<^verbatim>\<open>(priority, message)\<close> in a list kept as a binary heap by
  \<^verbatim>\<open>heapq\<close>: \<^verbatim>\<open>put\<close> is \<^verbatim>\<open>heappush\<close>, \<^verbatim>\<open>get\<close> is \<^verbatim>\<open>heappop\<close>. The order is Python's order
  on tuples: the priorities decide when they differ; when they are equal the messages
  are compared, equal messages give \<^verbatim>\<open>False\<close>, and two different messages raise
  \<^verbatim>\<open>TypeError\<close>, because \<^verbatim>\<open>TacticalMessage\<close> is a dataclass without \<^verbatim>\<open>order=True\<close> and
  so defines \<^verbatim>\<open>==\<close> but not \<^verbatim>\<open><\<close>.
\<close>

datatype exn = TypeError | IndexError

type_synonym queue_item = "int \<times> TacticalMessage"

definition item_lt :: "queue_item \<Rightarrow> queue_item \<Rightarrow> exn + bool" where
  "item_lt a b =
     (if fst a \<noteq> fst b then Inr (fst a < fst b)
      else if snd a = snd b then Inr False
      else Inl TypeError)"

text \<open>
  \<^verbatim>\<open>heapq\<close> as CPython runs it (the \<^verbatim>\<open>_heapq\<close> accelerator, which exchanges list
  entries in place). An exception of a comparison leaves the list as it is at that
  moment: the functions return the list together with the exception, if any.
\<close>

definition swap :: "'a list \<Rightarrow> nat \<Rightarrow> nat \<Rightarrow> 'a list" where
  "swap xs i j = xs[i := xs ! j, j := xs ! i]"

function siftdown :: "queue_item list \<Rightarrow> nat \<Rightarrow> nat \<Rightarrow> queue_item list \<times> exn option" where
  "siftdown heap startpos pos =
     (if startpos < pos then
        (let parentpos = (pos - 1) div 2 in
         case item_lt (heap ! pos) (heap ! parentpos) of
           Inl e \<Rightarrow> (heap, Some e)
         | Inr lt \<Rightarrow>
             if lt then siftdown (swap heap parentpos pos) startpos parentpos
             else (heap, None))
      else (heap, None))"
  by pat_completeness auto
termination
  by (relation "measure (\<lambda>(heap, startpos, pos). pos)") auto

function siftup_loop :: "queue_item list \<Rightarrow> nat \<Rightarrow> queue_item list \<times> (exn + nat)" where
  "siftup_loop heap pos =
     (if pos < length heap div 2 then
        (let childpos = 2 * pos + 1 in
         case (if childpos + 1 < length heap
               then item_lt (heap ! childpos) (heap ! (childpos + 1)) else Inr True) of
           Inl e \<Rightarrow> (heap, Inl e)
         | Inr lt \<Rightarrow>
             (let childpos' = (if lt then childpos else childpos + 1) in
              siftup_loop (swap heap childpos' pos) childpos'))
      else (heap, Inr pos))"
  by pat_completeness auto
termination
  by (relation "measure (\<lambda>(heap, pos). length heap - pos)") (auto simp: swap_def)

definition siftup :: "queue_item list \<Rightarrow> nat \<Rightarrow> queue_item list \<times> exn option" where
  "siftup heap pos =
     (case siftup_loop heap pos of
        (heap', Inl e) \<Rightarrow> (heap', Some e)
      | (heap', Inr pos') \<Rightarrow> siftdown heap' pos pos')"

definition heappush :: "queue_item list \<Rightarrow> queue_item \<Rightarrow> queue_item list \<times> exn option" where
  "heappush heap item = siftdown (heap @ [item]) 0 (length heap)"

text \<open>
  \<^verbatim>\<open>heappop\<close> takes the last entry off the list, puts it at the root in place of the
  entry to return and sifts; when the sift raises, the entry to return is dropped.
\<close>

definition heappop :: "queue_item list \<Rightarrow> queue_item list \<times> (exn + queue_item)" where
  "heappop heap =
     (if heap = [] then (heap, Inl IndexError)
      else
        (let lastelt = last heap; heap1 = butlast heap in
         if heap1 = [] then (heap1, Inr lastelt)
         else
           (let returnitem = heap1 ! 0; heap2 = heap1[0 := lastelt] in
            case siftup heap2 0 of
              (heap3, Some e) \<Rightarrow> (heap3, Inl e)
            | (heap3, None) \<Rightarrow> (heap3, Inr returnitem))))"

subsection \<open>The state of a node\<close>

text \<open>
  The fields of \<^verbatim>\<open>TactiMeshNode\<close> that the functions below read or write:
  \<open>identity\<close>, the signing key \<^verbatim>\<open>crypto.keys["sig_private"]\<close>, the store, the two
  queues. What leaves the node is recorded: \<open>sent\<close> holds, in order, each message handed
  to the transports with its frame; \<open>broadcasts\<close> the messages given to
  \<^verbatim>\<open>_broadcast_to_clients\<close>; \<open>logged\<close> the lines written to the logger.
\<close>

record node =
  identity :: NodeIdentity
  sig_private :: string
  database :: db
  outbox :: "queue_item list"
  inbox :: "(TacticalMessage \<times> NodeIdentity) list"
  sent :: "(TacticalMessage \<times> string) list"
  broadcasts :: "TacticalMessage list"
  logged :: "string list"

definition TOPIC_BLUE_FORCE :: string where
  "TOPIC_BLUE_FORCE = ''blue_force''"

definition TOPIC_ALERT :: string where
  "TOPIC_ALERT = ''alert''"

subsection \<open>The outbound path\<close>

text \<open>
  \<^verbatim>\<open>send_message\<close>. The whole body is one \<^verbatim>\<open>try\<close> whose handler logs
  \<^verbatim>\<open>Failed to send message\<close>. \<open>store_ok\<close> tells whether the statement of
  \<^verbatim>\<open>store_message\<close> succeeds or raises (a persistence failure); \<open>fresh_id\<close> and \<open>now\<close>
  are \<^verbatim>\<open>str(uuid.uuid4())\<close> and \<^verbatim>\<open>time.time()\<close>; \<open>recipients'\<close> is
  \<^verbatim>\<open>recipients or []\<close>.
\<close>

definition send_message ::
  "bool \<Rightarrow> string \<Rightarrow> real \<Rightarrow> node \<Rightarrow> string \<Rightarrow> (string \<times> json) list \<Rightarrow> string list \<Rightarrow> int \<Rightarrow>
   string \<Rightarrow> node" where
  "send_message store_ok fresh_id now st topic' payload' recipients' priority' classification' =
     (let message = \<lparr>msg_id = fresh_id, msg_type = ''DATA'', topic = topic',
                     sender = node_id (identity st), recipients = recipients',
                     classification = classification', priority = priority',
                     msg_timestamp = now, expires = None, payload = payload',
                     attachments = [], signature = None\<rparr>
      in if \<not> store_ok then st\<lparr>logged := logged st @ [''Failed to send message'']\<rparr>
         else
           (let st1 = st\<lparr>database := store_message (database st) message\<rparr>
            in case heappush (outbox st1) (priority', message) of
                 (q, Some e) \<Rightarrow>
                   st1\<lparr>outbox := q, logged := logged st1 @ [''Failed to send message'']\<rparr>
               | (q, None) \<Rightarrow>
                   st1\<lparr>outbox := q, logged := logged st1 @ [''Queued message'']\<rparr>))"

text \<open>
  One turn of \<^verbatim>\<open>transmit_loop\<close>. On an empty queue \<^verbatim>\<open>get\<close> times out and the loop
  continues. An exception of \<^verbatim>\<open>get\<close> or of \<^verbatim>\<open>_encode_message\<close> is logged as
  \<^verbatim>\<open>Transmission error\<close>; otherwise the frame goes to every transport.
\<close>

definition transmit_step :: "nacl \<Rightarrow> (real \<Rightarrow> string) \<Rightarrow> node \<Rightarrow> node" where
  "transmit_step lib fr st =
     (if outbox st = [] then st
      else
        (case heappop (outbox st) of
           (q, Inl e) \<Rightarrow> st\<lparr>outbox := q, logged := logged st @ [''Transmission error'']\<rparr>
         | (q, Inr (priority', message)) \<Rightarrow>
             (case encode_message lib fr (identity st) (sig_private st) message of
                None \<Rightarrow> st\<lparr>outbox := q, logged := logged st @ [''Transmission error'']\<rparr>
              | Some data \<Rightarrow> st\<lparr>outbox := q, sent := sent st @ [(message, data)]\<rparr>)))"

subsection \<open>The inbound path\<close>

text \<open>
  \<^verbatim>\<open>_decode_message\<close>: \<open>loads\<close> is \<^verbatim>\<open>json.loads(data.decode())\<close>, \<open>None\<close> when it raises.
  An accepted frame has its \<^verbatim>\<open>sender_identity\<close> written to the nodes table by
  \<^verbatim>\<open>upsert_node\<close>; no row is read. Store operations of the inbound path are taken to
  succeed.
\<close>

definition decode_message ::
  "nacl \<Rightarrow> (real \<Rightarrow> string) \<Rightarrow> (string \<Rightarrow> json option) \<Rightarrow> real \<Rightarrow> node \<Rightarrow> string \<Rightarrow>
   node \<times> (TacticalMessage \<times> NodeIdentity) option" where
  "decode_message lib fr loads now st data =
     (case loads data \<bind> decode_envelope lib fr of
        None \<Rightarrow> (st, None)
      | Some (message, sender_identity) \<Rightarrow>
          (st\<lparr>database := upsert_node (database st) now sender_identity\<rparr>,
           Some (message, sender_identity)))"

text \<open>
  \<^verbatim>\<open>_process_received_message\<close>. A \<^verbatim>\<open>blue_force\<close> payload becomes a \<^verbatim>\<open>Position\<close> and is
  given to \<^verbatim>\<open>upsert_position\<close>; no stored timestamp is read. When the constructor raises,
  the handler logs and the message is not broadcast to the web clients.
\<close>

definition process_received_message :: "node \<Rightarrow> TacticalMessage \<Rightarrow> node" where
  "process_received_message st message =
     (if topic message = TOPIC_BLUE_FORCE then
        (case Position_of (payload message) of
           None \<Rightarrow> st\<lparr>logged := logged st @ [''Message processing error'']\<rparr>
         | Some position \<Rightarrow>
             st\<lparr>database := upsert_position (database st) position,
                broadcasts := broadcasts st @ [message]\<rparr>)
      else if topic message = TOPIC_ALERT then
        st\<lparr>logged := logged st @ [''TACTICAL ALERT''], broadcasts := broadcasts st @ [message]\<rparr>
      else st\<lparr>broadcasts := broadcasts st @ [message]\<rparr>)"

text \<open>The body of \<^verbatim>\<open>receive_loop\<close> for one datagram of one transport.\<close>

definition receive_step ::
  "nacl \<Rightarrow> (real \<Rightarrow> string) \<Rightarrow> (string \<Rightarrow> json option) \<Rightarrow> real \<Rightarrow> node \<Rightarrow> string \<Rightarrow> node" where
  "receive_step lib fr loads now st data =
     (if data = [] then st
      else
        (case decode_message lib fr loads now st data of
           (st1, None) \<Rightarrow> st1
         | (st1, Some (message, sender_identity)) \<Rightarrow>
             (let st2 = st1\<lparr>database := store_message (database st1) message\<rparr>;
                  st3 = process_received_message st2 message
              in st3\<lparr>inbox := inbox st3 @ [(message, sender_identity)]\<rparr>)))"

section \<open>The situational engine (\<^verbatim>\<open>SituationalAwareness\<close>)\<close>

text \<open>
  \<^verbatim>\<open>check_geofence_violations\<close> builds \<^verbatim>\<open>Point(position.lon, position.lat)\<close>, parses the
  polygon text of each active zone with \<^verbatim>\<open>shapely.wkt.loads\<close> and asks
  \<^verbatim>\<open>polygon.contains(point)\<close>. The parser is the parameter \<open>wkt_loads\<close>: it gives the
  exterior ring of the polygon as a closed list of vertices \<open>(x, y)\<close>, or \<open>None\<close> when it
  raises (polygons with holes and other geometries are outside the model).

  Shapely's \<^verbatim>\<open>contains\<close> holds for a point of the interior of the polygon and not for a
  point of its boundary. For a ring it is computed here by the crossing number of the ray
  from the point towards larger \<open>x\<close>, after the boundary test.
\<close>

type_synonym point = "real \<times> real"

fun ring_edges :: "point list \<Rightarrow> (point \<times> point) list" where
  "ring_edges (a # b # rest) = (a, b) # ring_edges (b # rest)"
| "ring_edges _ = []"

definition on_segment :: "point \<Rightarrow> point \<times> point \<Rightarrow> bool" where
  "on_segment p e =
     (case (p, e) of ((x, y), ((x1, y1), (x2, y2))) \<Rightarrow>
        (x2 - x1) * (y - y1) = (y2 - y1) * (x - x1) \<and>
        min x1 x2 \<le> x \<and> x \<le> max x1 x2 \<and> min y1 y2 \<le> y \<and> y \<le> max y1 y2)"

definition ray_crosses :: "point \<Rightarrow> point \<times> point \<Rightarrow> bool" where
  "ray_crosses p e =
     (case (p, e) of ((x, y), ((x1, y1), (x2, y2))) \<Rightarrow>
        (y < y1) \<noteq> (y < y2) \<and> x < (x2 - x1) * (y - y1) / (y2 - y1) + x1)"

definition polygon_contains :: "point list \<Rightarrow> point \<Rightarrow> bool" where
  "polygon_contains ring p =
     (\<not> list_ex (on_segment p) (ring_edges ring) \<and>
      odd (length (filter (ray_crosses p) (ring_edges ring))))"

text \<open>The dictionary appended to \<^verbatim>\<open>violations\<close> for a zone.\<close>

record violation =
  v_zone_id :: string
  v_name :: string
  v_type :: string
  v_classification :: string

definition violation_of :: "GeofenceZone \<Rightarrow> violation" where
  "violation_of z = \<lparr>v_zone_id = zone_id z, v_name = zone_name z, v_type = zone_type z,
                     v_classification = zone_classification z\<rparr>"

text \<open>
  The loop over the fetched rows. The polygon text is parsed before the zone type is
  looked at; when the parser raises, the handler around the whole loop logs and the
  violations found so far are returned.
\<close>

fun scan_zones ::
  "(string \<Rightarrow> point list option) \<Rightarrow> point \<Rightarrow> GeofenceZone list \<Rightarrow> violation list \<Rightarrow>
   violation list" where
  "scan_zones wkt_loads pt [] violations = violations"
| "scan_zones wkt_loads pt (row # rows) violations =
     (case wkt_loads (polygon row) of
        None \<Rightarrow> violations
      | Some poly \<Rightarrow>
          if zone_type row \<in> set [''HOSTILE'', ''RESTRICTED''] \<and> polygon_contains poly pt
          then scan_zones wkt_loads pt rows (violations @ [violation_of row])
          else scan_zones wkt_loads pt rows violations)"

definition check_geofence_violations ::
  "(string \<Rightarrow> point list option) \<Rightarrow> db \<Rightarrow> Position \<Rightarrow> violation list" where
  "check_geofence_violations wkt_loads d position =
     scan_zones wkt_loads (lon position, lat position) (filter active (geofences d)) []"

section \<open>Example data\<close>

text \<open>Concrete values on which the theorems below are run.\<close>

definition example_identity :: "string \<Rightarrow> string \<Rightarrow> NodeIdentity" where
  "example_identity nid vk =
     \<lparr>node_id = nid, callsign = ''ALPHA'', unit = ''UNASSIGNED'', rank = ''E-4'',
      role = ''OPERATOR'', clearance_level = 3, pubkey = ''PK'', verify_key = vk,
      created = 1\<rparr>"

definition example_node_row :: "string \<Rightarrow> string \<Rightarrow> node_row" where
  "example_node_row nid st =
     \<lparr>node_id = nid, callsign = ''ALPHA'', unit = ''UNASSIGNED'', rank = ''E-4'',
      role = ''OPERATOR'', clearance_level = 3, pubkey = ''PK'', verify_key = ''VK'',
      created = 1, last_seen = 990, status = st\<rparr>"

definition example_position :: "string \<Rightarrow> real \<Rightarrow> Position" where
  "example_position nid t =
     \<lparr>pos_node_id = nid, lat = 37, lon = -122, alt = 0, accuracy = 10, speed = 0,
      course = 0, timestamp = t, mgrs = ''10Q''\<rparr>"

definition example_message ::
  "string \<Rightarrow> string \<Rightarrow> int \<Rightarrow> (string \<times> json) list \<Rightarrow> TacticalMessage" where
  "example_message mid sndr prio pl =
     \<lparr>msg_id = mid, msg_type = ''DATA'', topic = ''command'', sender = sndr,
      recipients = [], classification = ''UNCLASSIFIED'', priority = prio,
      msg_timestamp = 50, expires = None, payload = pl, attachments = [],
      signature = None\<rparr>"

text \<open>
  A store with four node rows (one not \<^verbatim>\<open>'ACTIVE'\<close>) and five position rows: one of an
  inactive node, one older than the window, one of a node that has no row.
\<close>

definition picture_db :: db where
  "picture_db =
     \<lparr>nodes = [example_node_row ''a'' ''ACTIVE'', example_node_row ''b'' ''INACTIVE'',
               example_node_row ''c'' ''ACTIVE'', example_node_row ''d'' ''ACTIVE''],
      positions = [example_position ''a'' 900, example_position ''b'' 950,
                   example_position ''c'' 980, example_position ''d'' 100,
                   example_position ''z'' 990],
      messages = [], geofences = []\<rparr>"

text \<open>
  A symbolic signature scheme on which the codec can be run: the signature of \<open>d\<close>
  under the key \<open>k\<close> is the text \<open>k:d\<close>, the verify key is the signing key, base64 is
  the identity on non-empty text. A signature verifies for the signed data only.
\<close>

definition symbolic_nacl :: nacl where
  "symbolic_nacl =
     \<lparr>b64decode = (\<lambda>s. if s = [] then None else Some s),
      b64encode = (\<lambda>s. s),
      VerifyKey = Some,
      vk_verify = (\<lambda>k d s. s = k @ '':'' @ d),
      SigningKey = Some,
      sk_sign = (\<lambda>k d. k @ '':'' @ d)\<rparr>"

text \<open>The text of a float with an integral value, as \<^verbatim>\<open>repr\<close> gives it (\<^verbatim>\<open>50.0\<close>).\<close>

definition example_repr :: "real \<Rightarrow> string" where
  "example_repr r = str_int (floor r) @ ''.0''"

text \<open>A parser that knows the given values: it returns the one whose text it is given.\<close>

definition loads_among :: "(real \<Rightarrow> string) \<Rightarrow> json list \<Rightarrow> string \<Rightarrow> json option" where
  "loads_among fr js s = find (\<lambda>j. dumps fr j = s) js"

text \<open>A node with an empty store and empty queues; its signing key is \<open>K\<close> and its id.\<close>

definition example_node :: "string \<Rightarrow> node" where
  "example_node nid =
     \<lparr>identity = example_identity nid (''K'' @ nid), sig_private = ''K'' @ nid,
      database = empty_db, outbox = [], inbox = [], sent = [], broadcasts = [],
      logged = []\<rparr>"

text \<open>Three calls of \<^verbatim>\<open>send_message\<close> with the default priority 2 on node \<open>a\<close>.\<close>

definition three_sends :: node where
  "three_sends =
     send_message True ''m3'' 50
       (send_message True ''m2'' 50
          (send_message True ''m1'' 50 (example_node ''a'')
             ''command'' [] [] 2 ''UNCLASSIFIED'')
          ''command'' [] [] 2 ''UNCLASSIFIED'')
       ''command'' [] [] 2 ''UNCLASSIFIED''"

text \<open>A priority-0 message \<open>f0\<close>, then two messages with priority 2, on node \<open>a\<close>.\<close>

definition flash_and_two :: node where
  "flash_and_two =
     send_message True ''m2'' 50
       (send_message True ''m1'' 50
          (send_message True ''f0'' 50 (example_node ''a'')
             ''command'' [] [] 0 ''UNCLASSIFIED'')
          ''command'' [] [] 2 ''UNCLASSIFIED'')
       ''command'' [] [] 2 ''UNCLASSIFIED''"

text \<open>A \<^verbatim>\<open>blue_force\<close> message that carries a position, as \<^verbatim>\<open>update_position\<close> builds it.\<close>

definition position_message :: "string \<Rightarrow> string \<Rightarrow> Position \<Rightarrow> TacticalMessage" where
  "position_message mid sndr p =
     \<lparr>msg_id = mid, msg_type = ''DATA'', topic = TOPIC_BLUE_FORCE, sender = sndr,
      recipients = [], classification = ''UNCLASSIFIED'', priority = 2,
      msg_timestamp = timestamp p, expires = None, payload = asdict_position p,
      attachments = [], signature = Some ''sig''\<rparr>"

text \<open>
  Scenario S3 of the specification: node \<open>b\<close> processes the position of \<open>a\<close> with
  timestamp 100, then the one with timestamp 99.
\<close>

definition newer_position :: Position where
  "newer_position = example_position ''a'' 100"

definition older_position :: Position where
  "older_position = (example_position ''a'' 99)\<lparr>lat := 37.1, lon := -122.1\<rparr>"

definition after_newer :: node where
  "after_newer =
     process_received_message (example_node ''b'') (position_message ''p1'' ''a'' newer_position)"

definition after_older :: node where
  "after_older =
     process_received_message after_newer (position_message ''p2'' ''a'' older_position)"

text \<open>The envelope and the frame that node \<open>a\<close> emits for a message of \<^verbatim>\<open>send_message\<close>.\<close>

definition example_envelope :: json where
  "example_envelope =
     (case signed_envelope symbolic_nacl example_repr (example_identity ''a'' ''Ka'') ''Ka''
             (example_message ''m1'' ''a'' 2 [(''text'', JStr ''move'')]) of
        Some e \<Rightarrow> e | None \<Rightarrow> JNull)"

definition example_frame :: string where
  "example_frame = dumps example_repr example_envelope"

text \<open>
  A frame of a peer that signs, with the symbolic scheme, the bytes the receiver
  checks: the envelope without the \<^verbatim>\<open>signature\<close> entry.
\<close>

definition peer_signature ::
  "(real \<Rightarrow> string) \<Rightarrow> NodeIdentity \<Rightarrow> string \<Rightarrow> TacticalMessage \<Rightarrow> string" where
  "peer_signature fr ident sk m =
     sk @ '':'' @ verify_input fr (JStr ''1.0'') (asdict_identity ident) (asdict_message m)"

definition peer_envelope ::
  "(real \<Rightarrow> string) \<Rightarrow> NodeIdentity \<Rightarrow> string \<Rightarrow> TacticalMessage \<Rightarrow> json" where
  "peer_envelope fr ident sk m =
     JDict [(''version'', JStr ''1.0''), (''sender_identity'', asdict_identity ident),
            (''message'', JDict (dict_set (asdict_message m) ''signature''
                (JStr (peer_signature fr ident sk m))))]"

text \<open>
  Node \<open>b\<close> has a row for node \<open>a\<close> with verify key \<open>VK\<close>. A frame then arrives whose
  \<^verbatim>\<open>sender_identity\<close> names node \<open>a\<close> with the verify key \<open>Kx\<close> and is signed with \<open>Kx\<close>.
\<close>

definition pinned_node :: node where
  "pinned_node = (example_node ''b'')
     \<lparr>database := empty_db\<lparr>nodes := [example_node_row ''a'' ''ACTIVE'']\<rparr>\<rparr>"

definition rekeyed_identity :: NodeIdentity where
  "rekeyed_identity = example_identity ''a'' ''Kx''"

definition rekeyed_envelope :: json where
  "rekeyed_envelope = peer_envelope example_repr rekeyed_identity ''Kx''
      (example_message ''m9'' ''a'' 2 [(''text'', JStr ''move'')])"

definition rekeyed_frame :: string where
  "rekeyed_frame = dumps example_repr rekeyed_envelope"

text \<open>Scenario S6 of the specification: the square zone and positions by latitude and longitude.\<close>

definition square_wkt :: string where
  "square_wkt = ''POLYGON ((0 0, 0 10, 10 10, 10 0, 0 0))''"

definition example_wkt_loads :: "string \<Rightarrow> point list option" where
  "example_wkt_loads s =
     (if s = square_wkt then Some [(0, 0), (0, 10), (10, 10), (10, 0), (0, 0)] else None)"

definition example_zone :: "string \<Rightarrow> string \<Rightarrow> string \<Rightarrow> GeofenceZone" where
  "example_zone zid ztype wkt =
     \<lparr>zone_id = zid, zone_name = ''ZONE'', zone_type = ztype, polygon = wkt,
      zone_classification = ''UNCLASSIFIED'', created_by = ''a'', zone_created = 1,
      active = True\<rparr>"

definition zone_db :: "GeofenceZone list \<Rightarrow> db" where
  "zone_db zs = empty_db\<lparr>geofences := zs\<rparr>"

definition at_point :: "real \<Rightarrow> real \<Rightarrow> Position" where
  "at_point la lo = (example_position ''a'' 100)\<lparr>lat := la, lon := lo\<rparr>"

section \<open>Properties of the store\<close>

lemma insert_or_replace_distinct:
  "distinct (map key rows) \<Longrightarrow> distinct (map key (insert_or_replace key r rows))"
  by (auto simp: insert_or_replace_def distinct_map_filter)

lemma insert_or_replace_same_key:
  "filter (\<lambda>x. key x = key r) (insert_or_replace key r rows) = [r]"
  by (simp add: insert_or_replace_def)

lemma insert_or_replace_other_key:
  "k \<noteq> key r \<Longrightarrow>
   filter (\<lambda>x. key x = k) (insert_or_replace key r rows) = filter (\<lambda>x. key x = k) rows"
  by (induction rows) (auto simp: insert_or_replace_def)

lemma joined_rows_guard:
  "p \<in> set (concat (map (\<lambda>p. map (\<lambda>n. p) (filter (Q p) ns)) ps)) \<Longrightarrow>
   p \<in> set ps \<and> (\<exists>n \<in> set ns. Q p n)"
  by (induction ps) auto

text \<open>
  C2 (as the code has it). \<^verbatim>\<open>store_message\<close> is \<^verbatim>\<open>INSERT OR REPLACE\<close> on the key
  \<^verbatim>\<open>msg_id\<close>: on a store with at most one row per \<^verbatim>\<open>msg_id\<close> it leaves at most one row
  per \<^verbatim>\<open>msg_id\<close> (hence per sender and \<^verbatim>\<open>msg_id\<close>); the row stored under the message's
  \<^verbatim>\<open>msg_id\<close> is afterwards the message just given, whatever row (of whatever sender) was
  there before; rows with another \<^verbatim>\<open>msg_id\<close> are untouched.
\<close>

theorem store_message_replaces_by_msg_id:
  "distinct (map msg_id (messages d)) \<Longrightarrow>
   distinct (map msg_id (messages (store_message d m))) \<and>
   map TacticalMessage.truncate
     (filter (\<lambda>r. msg_id r = msg_id m) (messages (store_message d m))) = [m] \<and>
   (\<forall>k. k \<noteq> msg_id m \<longrightarrow>
      filter (\<lambda>r. msg_id r = k) (messages (store_message d m)) =
      filter (\<lambda>r. msg_id r = k) (messages d))"
proof (intro conjI allI impI)
  assume "distinct (map msg_id (messages d))"
  then show "distinct (map msg_id (messages (store_message d m)))"
    by (simp add: store_message_def insert_or_replace_distinct)
next
  show "map TacticalMessage.truncate
     (filter (\<lambda>r. msg_id r = msg_id m) (messages (store_message d m))) = [m]"
    by (simp add: store_message_def insert_or_replace_def TacticalMessage.truncate_def)
next
  fix k assume "k \<noteq> msg_id m"
  then show "filter (\<lambda>r. msg_id r = k) (messages (store_message d m)) =
      filter (\<lambda>r. msg_id r = k) (messages d)"
    by (simp add: store_message_def insert_or_replace_other_key)
qed

theorem store_message_replaces_by_msg_id_witness:
  "distinct (map msg_id
     (messages (store_message empty_db (example_message ''X'' ''alpha'' 2 [])))) \<and>
   map TacticalMessage.truncate (filter (\<lambda>r. msg_id r = ''X'')
     (messages (store_message (store_message empty_db (example_message ''X'' ''alpha'' 2 []))
        (example_message ''X'' ''bravo'' 3 [])))) = [example_message ''X'' ''bravo'' 3 []]"
proof -
  have h: "distinct (map msg_id
     (messages (store_message empty_db (example_message ''X'' ''alpha'' 2 []))))"
    by (simp add: store_message_def empty_db_def insert_or_replace_def)
  show ?thesis
    using h store_message_replaces_by_msg_id [OF h, of "example_message ''X'' ''bravo'' 3 []"]
    by (simp add: example_message_def)
qed

text \<open>
  C2 as stated fails. Two distinct senders store a message with the same \<^verbatim>\<open>msg_id\<close>
  \<^verbatim>\<open>X\<close>: only the second row remains. And a second arrival of the same sender and
  \<^verbatim>\<open>msg_id\<close> with another payload changes the stored row.
\<close>

theorem store_message_duplicate_counterexample:
  "sender (example_message ''X'' ''alpha'' 2 []) \<noteq>
     sender (example_message ''X'' ''bravo'' 2 []) \<and>
   map TacticalMessage.truncate (messages (store_message
        (store_message empty_db (example_message ''X'' ''alpha'' 2 []))
        (example_message ''X'' ''bravo'' 2 []))) = [example_message ''X'' ''bravo'' 2 []] \<and>
   messages (store_message
        (store_message empty_db (example_message ''X'' ''alpha'' 2 []))
        (example_message ''X'' ''alpha'' 2 [(''text'', JStr ''move'')])) \<noteq>
   messages (store_message empty_db (example_message ''X'' ''alpha'' 2 []))"
  by (simp add: store_message_def empty_db_def insert_or_replace_def example_message_def
      TacticalMessage.truncate_def)

text \<open>
  C7 at the failing input. The nodes table is empty, yet \<^verbatim>\<open>upsert_position\<close> stores the
  position of node \<^verbatim>\<open>ghost\<close>: the write is not rejected and no node row appears.
\<close>

theorem upsert_position_without_node_row:
  "nodes (upsert_position empty_db (example_position ''ghost'' 100)) = [] \<and>
   positions (upsert_position empty_db (example_position ''ghost'' 100)) =
     [example_position ''ghost'' 100]"
  by (simp add: upsert_position_def empty_db_def insert_or_replace_def)

text \<open>
  The guard of the query, on the fetched rows: every row has a timestamp strictly
  greater than now minus the window, is a row of the positions table whose \<^verbatim>\<open>node_id\<close>
  has a row in the nodes table with status \<^verbatim>\<open>'ACTIVE'\<close>, and the rows are ordered
  newest first.
\<close>

lemma current_position_rows_guard:
  "(\<forall>p \<in> set (current_position_rows d now w).
       timestamp p > now - real_of_int w \<and> p \<in> set (positions d) \<and>
       (\<exists>n \<in> set (nodes d). node_id n = pos_node_id p \<and> status n = ''ACTIVE'')) \<and>
   sorted_wrt (\<lambda>a b. timestamp a \<ge> timestamp b) (current_position_rows d now w)"
proof (intro conjI ballI)
  fix p assume "p \<in> set (current_position_rows d now w)"
  then have "p \<in> set (positions d) \<and>
     (\<exists>n \<in> set (nodes d). pos_node_id p = node_id n \<and>
         timestamp p > now - real_of_int w \<and> status n = ''ACTIVE'')"
    unfolding current_position_rows_def Let_def set_rev set_sort
    by (rule joined_rows_guard)
  then show "timestamp p > now - real_of_int w" "p \<in> set (positions d)"
    "\<exists>n \<in> set (nodes d). node_id n = pos_node_id p \<and> status n = ''ACTIVE''"
    by auto
next
  have "sorted (map timestamp (sort_key timestamp xs))" for xs :: "Position list"
    by (rule sorted_sort_key)
  then show "sorted_wrt (\<lambda>a b. timestamp a \<ge> timestamp b) (current_position_rows d now w)"
    unfolding current_position_rows_def Let_def by (simp add: sorted_wrt_rev sorted_map)
qed

text \<open>
  The objects built from the rows carry the row's timestamp in the field \<^verbatim>\<open>mgrs\<close> and
  the row's grid reference in the field \<^verbatim>\<open>timestamp\<close>.
\<close>

lemma get_current_positions_fields:
  "map mgrs (get_current_positions d now w) = map timestamp (current_position_rows d now w) \<and>
   map timestamp (get_current_positions d now w) = map mgrs (current_position_rows d now w)"
  by (simp add: get_current_positions_def Position_of_row_def o_def)

text \<open>
  C10 at the failing input. The store holds two fresh positions of active nodes (with
  timestamps 900 and 980 and grid reference \<^verbatim>\<open>10Q\<close>), and three positions that the
  guard excludes. With the clock at 1000 and a window of 300 the two are returned,
  newest first, but the \<^verbatim>\<open>timestamp\<close> of each returned position is the text \<^verbatim>\<open>10Q\<close>; the
  number that is greater than 700 sits in its \<^verbatim>\<open>mgrs\<close> field.
\<close>

theorem get_current_positions_swaps_fields:
  "current_position_rows picture_db 1000 300 =
     [example_position ''c'' 980, example_position ''a'' 900] \<and>
   map pos_node_id (get_current_positions picture_db 1000 300) = [''c'', ''a''] \<and>
   map timestamp (get_current_positions picture_db 1000 300) = [''10Q'', ''10Q''] \<and>
   map mgrs (get_current_positions picture_db 1000 300) = [980, 900]"
  by (simp add: get_current_positions_def Position_of_row_def current_position_rows_def
      picture_db_def example_node_row_def example_position_def)

section \<open>Properties of the crypto module and the codec\<close>

text \<open>
  C9. \<^verbatim>\<open>verify_signature\<close> returns a boolean for every data, signature text and key
  text, whatever the library calls do with them: it never raises, and the boolean is
  true exactly when the key decodes and has the right form, the signature decodes, and
  the library accepts the signature; every malformed input and every bad signature
  gives false.
\<close>

theorem verify_signature_total:
  "verify_signature lib data sg pk =
     Some (\<exists>kb vk sb. b64decode lib pk = Some kb \<and> VerifyKey lib kb = Some vk \<and>
                      b64decode lib sg = Some sb \<and> vk_verify lib vk data sb)"
  by (auto simp: verify_signature_def split: option.splits Option.bind_splits if_splits)

lemma verify_signature_returns: "verify_signature lib d s k \<noteq> None"
  by (auto simp: verify_signature_def split: option.splits)

lemma symbolic_sign: "k \<noteq> [] \<Longrightarrow> sign_message symbolic_nacl k d = Some (k @ '':'' @ d)"
  by (simp add: sign_message_def symbolic_nacl_def)

lemma symbolic_verify:
  "verify_signature symbolic_nacl d s k = Some (k \<noteq> [] \<and> s = k @ '':'' @ d)"
  by (auto simp: verify_signature_def symbolic_nacl_def split: option.splits Option.bind_splits)

subsection \<open>The dataclass constructors invert \<^verbatim>\<open>asdict\<close>\<close>

lemma NodeIdentity_of_asdict: "NodeIdentity_of (asdict_identity n) = Some n"
  by (simp add: NodeIdentity_of_def asdict_identity_def NodeIdentity_fields_def get_str_def
      get_int_def get_float_def)

lemma Position_of_asdict: "Position_of (asdict_position p) = Some p"
  by (simp add: Position_of_def asdict_position_def Position_fields_def get_str_def
      get_float_def)

lemma strs_of_map: "strs_of (map JStr xs) = Some xs"
  by (induction xs) auto

lemma TacticalMessage_of_signed:
  "TacticalMessage_of (dict_set (asdict_message m) ''signature'' (JStr sg)) =
   Some (m\<lparr>signature := Some sg\<rparr>)"
  by (cases "expires m")
     (simp_all add: TacticalMessage_of_def asdict_message_def TacticalMessage_fields_def
       get_str_def get_float_def get_int_def get_opt_float_def get_opt_str_def get_dict_def
       get_str_list_def strs_of_map)

lemma signature_of_signed:
  "map_of (dict_set (asdict_message m) ''signature'' v) ''signature'' = Some v"
  by (simp add: asdict_message_def)

subsection \<open>The signed bytes are not the verified bytes\<close>

lemma join_snoc: "xs \<noteq> [] \<Longrightarrow> join sep (xs @ [x]) = join sep xs @ sep @ x"
  by (induction sep xs rule: join.induct) auto

lemma dumps_dict_snoc:
  "kvs \<noteq> [] \<Longrightarrow> length (dumps fr (JDict kvs)) < length (dumps fr (JDict (kvs @ [kv])))"
  by (simp add: join_snoc)

lemma dumps_envelope_length:
  "length (dumps fr (JDict [a, b, (k, v)])) =
   length (dumps fr (JDict [a, b])) + 1 + length (encode_basestring_ascii k) + 1 +
   length (dumps fr v)"
  by simp

lemma asdict_message_snoc:
  "asdict_message m = butlast (asdict_message m) @
     [(''signature'', (case signature m of None \<Rightarrow> JNull | Some s \<Rightarrow> JStr s))]"
  by (simp add: asdict_message_def)

lemma pop_set_signature:
  "dict_pop (dict_set (asdict_message m) ''signature'' v) ''signature'' =
   butlast (asdict_message m)"
  by (simp add: asdict_message_def dict_pop_def)

lemma butlast_asdict_nonempty: "butlast (asdict_message m) \<noteq> []"
  by (simp add: asdict_message_def)

text \<open>
  The sender signs the envelope in which the message dictionary still has its
  \<^verbatim>\<open>signature\<close> entry; the receiver checks the envelope from which the entry is
  removed. The second text is shorter, so the two are never equal.
\<close>

lemma signing_input_neq_verify_input:
  "signing_input fr ident m \<noteq>
   verify_input fr (JStr ''1.0'') (asdict_identity ident)
     (dict_set (asdict_message m) ''signature'' v)"
proof -
  have "length (dumps fr (JDict (butlast (asdict_message m)))) <
        length (dumps fr (JDict (asdict_message m)))"
    by (subst (2) asdict_message_snoc) (rule dumps_dict_snoc [OF butlast_asdict_nonempty])
  then have "length (verify_input fr (JStr ''1.0'') (asdict_identity ident)
                 (dict_set (asdict_message m) ''signature'' v)) <
             length (signing_input fr ident m)"
    unfolding signing_input_def verify_input_def pop_set_signature dumps_envelope_length
    by simp
  then show ?thesis by auto
qed

lemma decode_signed_envelope:
  "decode_envelope lib fr
     (JDict [(''version'', JStr ''1.0''), (''sender_identity'', asdict_identity ident),
             (''message'', JDict (dict_set (asdict_message m) ''signature'' (JStr sg)))]) =
   (if sg \<noteq> [] \<and>
       verify_signature lib
         (verify_input fr (JStr ''1.0'') (asdict_identity ident)
            (dict_set (asdict_message m) ''signature'' (JStr sg)))
         sg (verify_key ident) = Some True
    then Some (m\<lparr>signature := Some sg\<rparr>, ident) else None)"
  using verify_signature_returns [of lib "verify_input fr (JStr ''1.0'') (asdict_identity ident)
            (dict_set (asdict_message m) ''signature'' (JStr sg))" sg "verify_key ident"]
  by (auto simp: decode_envelope_def NodeIdentity_of_asdict get_dict_def signature_of_signed
      TacticalMessage_of_signed Let_def)

text \<open>
  C1 on the code. Let \<^verbatim>\<open>_encode_message\<close> produce a frame for a message, let the
  receiver's \<^verbatim>\<open>json.loads\<close> give back the envelope that was serialised, and let the
  signature scheme be sound (a signature made for some data verifies, under the sender's
  verify key, for that data only). Then \<^verbatim>\<open>_decode_message\<close> rejects the frame: it
  returns \<^verbatim>\<open>None\<close> and leaves the node as it was. The round trip never succeeds.
\<close>

theorem encoded_frame_is_rejected:
  assumes enc: "encode_message lib fr ident sk m = Some frame"
    and parse: "loads frame = signed_envelope lib fr ident sk m"
    and sound: "\<And>d d' s. sign_message lib sk d = Some s \<Longrightarrow>
                  verify_signature lib d' s (verify_key ident) = Some True \<Longrightarrow> d' = d"
  shows "decode_message lib fr loads now st frame = (st, None)"
proof -
  from enc obtain sg where sg: "sign_message lib sk (signing_input fr ident m) = Some sg"
    by (auto simp: encode_message_def signed_envelope_def split: Option.bind_splits)
  then have env: "signed_envelope lib fr ident sk m =
      Some (JDict [(''version'', JStr ''1.0''), (''sender_identity'', asdict_identity ident),
             (''message'', JDict (dict_set (asdict_message m) ''signature'' (JStr sg)))])"
    by (simp add: signed_envelope_def)
  have "verify_signature lib
         (verify_input fr (JStr ''1.0'') (asdict_identity ident)
            (dict_set (asdict_message m) ''signature'' (JStr sg)))
         sg (verify_key ident) \<noteq> Some True"
    using sound [OF sg] signing_input_neq_verify_input [of fr ident m "JStr sg"] by metis
  then show ?thesis
    by (simp add: decode_message_def parse env decode_signed_envelope)
qed

theorem encoded_frame_is_rejected_witness:
  "decode_message symbolic_nacl example_repr (loads_among example_repr [example_envelope]) 60
     (example_node ''b'') example_frame = (example_node ''b'', None)"
proof -
  have env: "signed_envelope symbolic_nacl example_repr (example_identity ''a'' ''Ka'') ''Ka''
       (example_message ''m1'' ''a'' 2 [(''text'', JStr ''move'')]) = Some example_envelope"
    by (simp add: example_envelope_def signed_envelope_def symbolic_sign)
  have enc: "encode_message symbolic_nacl example_repr (example_identity ''a'' ''Ka'') ''Ka''
       (example_message ''m1'' ''a'' 2 [(''text'', JStr ''move'')]) = Some example_frame"
    by (simp add: encode_message_def env example_frame_def)
  have parse: "loads_among example_repr [example_envelope] example_frame =
     signed_envelope symbolic_nacl example_repr (example_identity ''a'' ''Ka'') ''Ka''
       (example_message ''m1'' ''a'' 2 [(''text'', JStr ''move'')])"
    by (simp add: env loads_among_def example_frame_def)
  have sound: "\<And>d d' s. sign_message symbolic_nacl ''Ka'' d = Some s \<Longrightarrow>
      verify_signature symbolic_nacl d' s (verify_key (example_identity ''a'' ''Ka'')) =
        Some True \<Longrightarrow> d' = d"
    by (simp add: symbolic_sign symbolic_verify example_identity_def)
  show ?thesis
    by (rule encoded_frame_is_rejected
          [where loads = "loads_among example_repr [example_envelope]", OF enc parse sound])
qed

subsection \<open>Acceptance looks at the frame only\<close>

lemma verify_input_set_signature:
  "verify_input fr ver sid (dict_set (asdict_message m) ''signature'' v) =
   verify_input fr ver sid (asdict_message m)"
  by (simp add: verify_input_def asdict_message_def dict_pop_def)

lemma decode_peer_envelope:
  "sk \<noteq> [] \<Longrightarrow> verify_key ident = sk \<Longrightarrow>
   decode_envelope symbolic_nacl fr (peer_envelope fr ident sk m) =
   Some (m\<lparr>signature := Some (peer_signature fr ident sk m)\<rparr>, ident)"
  by (simp add: peer_envelope_def decode_signed_envelope symbolic_verify
      verify_input_set_signature peer_signature_def)

lemma decode_rekeyed:
  "decode_message symbolic_nacl example_repr (loads_among example_repr [rekeyed_envelope]) 60
     st rekeyed_frame =
   (st\<lparr>database := upsert_node (database st) 60 rekeyed_identity\<rparr>,
    Some ((example_message ''m9'' ''a'' 2 [(''text'', JStr ''move'')])
            \<lparr>signature := Some (peer_signature example_repr rekeyed_identity ''Kx''
                (example_message ''m9'' ''a'' 2 [(''text'', JStr ''move'')]))\<rparr>,
          rekeyed_identity))"
proof -
  have "decode_envelope symbolic_nacl example_repr rekeyed_envelope =
     Some ((example_message ''m9'' ''a'' 2 [(''text'', JStr ''move'')])
            \<lparr>signature := Some (peer_signature example_repr rekeyed_identity ''Kx''
                (example_message ''m9'' ''a'' 2 [(''text'', JStr ''move'')]))\<rparr>,
          rekeyed_identity)"
    unfolding rekeyed_envelope_def
    by (rule decode_peer_envelope) (simp_all add: rekeyed_identity_def example_identity_def)
  then show ?thesis
    by (simp add: decode_message_def loads_among_def rekeyed_frame_def)
qed

lemma upsert_node_same:
  "map verify_key (filter (\<lambda>n. node_id n = node_id sid) (nodes (upsert_node d now sid))) =
   [verify_key sid]"
  by (simp add: upsert_node_def insert_or_replace_def)

lemma upsert_node_other:
  "k \<noteq> node_id sid \<Longrightarrow>
   filter (\<lambda>n. node_id n = k) (nodes (upsert_node d now sid)) =
   filter (\<lambda>n. node_id n = k) (nodes d)"
  by (induction "nodes d" arbitrary: d)
     (auto simp: upsert_node_def insert_or_replace_def intro: filter_cong)

text \<open>
  C3 (as the code has it). Verify keys are not pinned. Whether \<^verbatim>\<open>_decode_message\<close>
  accepts a frame does not depend on the node's state, so not on the stored verify key.
  A rejected frame leaves the node unchanged. An accepted frame overwrites the node row
  of \<^verbatim>\<open>sender_identity.node_id\<close>: the verify key stored for that node is afterwards the
  one the frame carries, and the rows of the other nodes are untouched.
\<close>

theorem decode_message_takes_frame_key:
  "snd (decode_message lib fr loads now st data) =
     snd (decode_message lib fr loads now st2 data) \<and>
   (case decode_message lib fr loads now st data of
      (st', None) \<Rightarrow> st' = st
    | (st', Some (message, sid)) \<Rightarrow>
        map verify_key (filter (\<lambda>n. node_id n = node_id sid) (nodes (database st'))) =
          [verify_key sid] \<and>
        (\<forall>k. k \<noteq> node_id sid \<longrightarrow>
           filter (\<lambda>n. node_id n = k) (nodes (database st')) =
           filter (\<lambda>n. node_id n = k) (nodes (database st))))"
  by (simp add: decode_message_def upsert_node_same upsert_node_other split: option.splits)

theorem decode_message_takes_frame_key_witness:
  "map verify_key (filter (\<lambda>n. node_id n = ''a'')
      (nodes (database (fst (decode_message symbolic_nacl example_repr
         (loads_among example_repr [rekeyed_envelope]) 60 pinned_node rekeyed_frame))))) =
   [''Kx'']"
  using decode_message_takes_frame_key [of symbolic_nacl example_repr
      "loads_among example_repr [rekeyed_envelope]" 60 pinned_node rekeyed_frame pinned_node]
  by (simp add: decode_rekeyed rekeyed_identity_def example_identity_def)

text \<open>
  C3 as stated fails. Node \<open>b\<close> holds the verify key \<open>VK\<close> for node \<open>a\<close>; the frame
  carries the verify key \<open>Kx\<close> for node \<open>a\<close>. The frame is not dropped: the stored key
  becomes \<open>Kx\<close>, and the message reaches the inbox and the web clients.
\<close>

theorem rekeyed_frame_counterexample:
  "map verify_key (nodes (database pinned_node)) = [''VK''] \<and>
   node_id rekeyed_identity = ''a'' \<and> verify_key rekeyed_identity = ''Kx'' \<and>
   map (\<lambda>n. (node_id n, verify_key n))
     (nodes (database (receive_step symbolic_nacl example_repr
        (loads_among example_repr [rekeyed_envelope]) 60 pinned_node rekeyed_frame))) =
     [(''a'', ''Kx'')] \<and>
   map (msg_id \<circ> fst) (inbox (receive_step symbolic_nacl example_repr
        (loads_among example_repr [rekeyed_envelope]) 60 pinned_node rekeyed_frame)) =
     [''m9''] \<and>
   map msg_id (broadcasts (receive_step symbolic_nacl example_repr
        (loads_among example_repr [rekeyed_envelope]) 60 pinned_node rekeyed_frame)) =
     [''m9'']"
proof -
  have ne: "rekeyed_frame \<noteq> []"
    by (simp add: rekeyed_frame_def rekeyed_envelope_def peer_envelope_def)
  show ?thesis
    by (simp add: receive_step_def ne decode_rekeyed process_received_message_def
          TOPIC_BLUE_FORCE_def TOPIC_ALERT_def example_message_def)
       (simp add: pinned_node_def example_node_def empty_db_def upsert_node_def
          insert_or_replace_def rekeyed_identity_def example_identity_def
          example_node_row_def store_message_def)
qed

section \<open>Properties of the node runtime\<close>

text \<open>
  C8 (as the code has it). When the store raises in \<^verbatim>\<open>send_message\<close>, the failure is
  logged and nothing else happens: the message is not enqueued, the store and the queue
  are as before, and the transmit loop sends what it would have sent without the call.
\<close>

theorem send_message_store_failure:
  "send_message False fresh_id now st tp pl rc pr cl =
     st\<lparr>logged := logged st @ [''Failed to send message'']\<rparr> \<and>
   outbox (send_message False fresh_id now st tp pl rc pr cl) = outbox st \<and>
   sent (transmit_step lib fr (send_message False fresh_id now st tp pl rc pr cl)) =
     sent (transmit_step lib fr st)"
  by (simp add: send_message_def transmit_step_def split: prod.splits sum.splits option.splits)

text \<open>
  C8 as stated fails. The store raises while node \<open>a\<close> sends its first message: the
  failure is logged, the outbound queue stays empty and the next turn of the transmit
  loop hands nothing to the transports.
\<close>

theorem send_message_store_failure_counterexample:
  "logged (send_message False ''m1'' 50 (example_node ''a'') ''command'' [] [] 2
             ''UNCLASSIFIED'') = [''Failed to send message''] \<and>
   outbox (send_message False ''m1'' 50 (example_node ''a'') ''command'' [] [] 2
             ''UNCLASSIFIED'') = [] \<and>
   sent (transmit_step symbolic_nacl example_repr
          (send_message False ''m1'' 50 (example_node ''a'') ''command'' [] [] 2
             ''UNCLASSIFIED'')) = []"
  by (simp add: send_message_def transmit_step_def example_node_def)

text \<open>
  Two tuples of equal priority with different messages cannot be compared, so a \<^verbatim>\<open>put\<close>
  next to a queued message of the same priority raises.
\<close>

lemma equal_priority_unorderable: "m \<noteq> m' \<Longrightarrow> item_lt (p, m) (p, m') = Inl TypeError"
  by (simp add: item_lt_def)

lemma equal_priority_put_raises:
  "m \<noteq> m' \<Longrightarrow> heappush [(p, m)] (p, m') = ([(p, m), (p, m')], Some TypeError)"
  by (simp add: heappush_def item_lt_def)

text \<open>
  All three \<^verbatim>\<open>put\<close> succeed when the priority-0 message comes first, but the \<^verbatim>\<open>get\<close>
  that should return it compares the two priority-2 tuples, raises and drops it.
\<close>

lemma flash_message_lost:
  "logged flash_and_two = [''Queued message'', ''Queued message'', ''Queued message''] \<and>
   map (msg_id \<circ> fst)
     (sent (transmit_step symbolic_nacl example_repr
        (transmit_step symbolic_nacl example_repr
           (transmit_step symbolic_nacl example_repr flash_and_two)))) = [''m1'', ''m2'']"
  by (simp add: flash_and_two_def send_message_def example_node_def heappush_def item_lt_def
      swap_def store_message_def example_identity_def transmit_step_def heappop_def
      siftup_def encode_message_def signed_envelope_def sign_message_def symbolic_nacl_def)

text \<open>
  C4 at the failing input. Node \<open>a\<close> sends three messages \<open>m1\<close>, \<open>m2\<close>, \<open>m3\<close> with the
  same priority 2 before the transmit loop runs. The second and the third \<^verbatim>\<open>put\<close> raise
  \<^verbatim>\<open>TypeError\<close> (logged as a failed send) and leave their tuple in the heap list. The
  first \<^verbatim>\<open>get\<close> raises too and drops \<open>m1\<close>; the next two turns transmit \<open>m2\<close> and \<open>m3\<close>.
  The message enqueued first is never transmitted.
\<close>

theorem equal_priority_first_message_lost:
  "map (msg_id \<circ> snd) (outbox three_sends) = [''m1'', ''m2'', ''m3''] \<and>
   logged three_sends =
     [''Queued message'', ''Failed to send message'', ''Failed to send message''] \<and>
   map (msg_id \<circ> fst)
     (sent (transmit_step symbolic_nacl example_repr
        (transmit_step symbolic_nacl example_repr
           (transmit_step symbolic_nacl example_repr three_sends)))) = [''m2'', ''m3''] \<and>
   outbox (transmit_step symbolic_nacl example_repr
        (transmit_step symbolic_nacl example_repr
           (transmit_step symbolic_nacl example_repr three_sends))) = []"
  by (simp add: three_sends_def send_message_def example_node_def heappush_def item_lt_def
      swap_def store_message_def example_identity_def transmit_step_def heappop_def
      siftup_def encode_message_def signed_envelope_def sign_message_def symbolic_nacl_def)

text \<open>
  C5 (as the code has it). An inbound \<^verbatim>\<open>blue_force\<close> message whose payload is a position
  replaces the position row of that node, whatever the timestamps: on a store with at
  most one position row per node, the store afterwards has at most one row per node,
  the row of the position's node is the position just received, and the rows of the
  other nodes are untouched.
\<close>

theorem inbound_position_replaces_row:
  "topic message = TOPIC_BLUE_FORCE \<Longrightarrow> Position_of (payload message) = Some p \<Longrightarrow>
   distinct (map pos_node_id (positions (database st))) \<Longrightarrow>
   distinct (map pos_node_id (positions (database (process_received_message st message)))) \<and>
   filter (\<lambda>r. pos_node_id r = pos_node_id p)
     (positions (database (process_received_message st message))) = [p] \<and>
   (\<forall>k. k \<noteq> pos_node_id p \<longrightarrow>
      filter (\<lambda>r. pos_node_id r = k)
        (positions (database (process_received_message st message))) =
      filter (\<lambda>r. pos_node_id r = k) (positions (database st)))"
  by (simp add: process_received_message_def upsert_position_def insert_or_replace_distinct
      insert_or_replace_same_key insert_or_replace_other_key)

lemma after_newer_positions: "positions (database after_newer) = [newer_position]"
  by (simp add: after_newer_def process_received_message_def position_message_def
      Position_of_asdict upsert_position_def insert_or_replace_def example_node_def
      empty_db_def)

theorem inbound_position_replaces_row_witness:
  "filter (\<lambda>r. pos_node_id r = ''a'') (positions (database after_older)) = [older_position] \<and>
   distinct (map pos_node_id (positions (database after_older)))"
proof -
  have h1: "topic (position_message ''p2'' ''a'' older_position) = TOPIC_BLUE_FORCE"
    by (simp add: position_message_def)
  have h2: "Position_of (payload (position_message ''p2'' ''a'' older_position)) =
            Some older_position"
    by (simp add: position_message_def Position_of_asdict)
  have h3: "distinct (map pos_node_id (positions (database after_newer)))"
    by (simp add: after_newer_positions)
  have k: "pos_node_id older_position = ''a''"
    by (simp add: older_position_def example_position_def)
  from inbound_position_replaces_row [OF h1 h2 h3] show ?thesis
    by (simp add: after_older_def k)
qed

text \<open>
  C5 as stated fails (scenario S3). The store of \<open>b\<close> holds the position of \<open>a\<close> with
  timestamp 100; the position with timestamp 99 arrives; the stored row is then the
  older position.
\<close>

theorem stale_position_counterexample:
  "positions (database after_newer) = [newer_position] \<and>
   timestamp older_position \<le> timestamp newer_position \<and>
   positions (database after_older) = [older_position] \<and>
   older_position \<noteq> newer_position"
  by (simp add: after_older_def after_newer_positions process_received_message_def
      position_message_def Position_of_asdict upsert_position_def insert_or_replace_def
      older_position_def newer_position_def example_position_def)

section \<open>Properties of the situational engine\<close>

lemma scan_zones_acc:
  "scan_zones w pt rows (acc @ vs) = acc @ scan_zones w pt rows vs"
  by (induction rows arbitrary: vs) (auto split: option.splits)

lemma scan_zones_all_parse:
  "list_all (\<lambda>z. w (polygon z) \<noteq> None) rows \<Longrightarrow>
   scan_zones w pt rows [] =
   map violation_of (filter (\<lambda>z. zone_type z \<in> set [''HOSTILE'', ''RESTRICTED''] \<and>
       (case w (polygon z) of Some poly \<Rightarrow> polygon_contains poly pt | None \<Rightarrow> False)) rows)"
proof (induction rows)
  case Nil
  then show ?case by simp
next
  case (Cons z rows)
  then obtain poly where p: "w (polygon z) = Some poly" by auto
  from Cons have ih: "scan_zones w pt rows [] =
   map violation_of (filter (\<lambda>z. zone_type z \<in> set [''HOSTILE'', ''RESTRICTED''] \<and>
       (case w (polygon z) of Some poly \<Rightarrow> polygon_contains poly pt | None \<Rightarrow> False)) rows)"
    by simp
  show ?case
    using scan_zones_acc [of w pt rows "[violation_of z]" "[]"]
    by (simp add: p ih del: set_simps)
qed

lemma square_inside:
  "polygon_contains [(0, 0), (0, 10), (10, 10), (10, 0), (0, 0)] (5, 5)"
  by (simp add: polygon_contains_def on_segment_def ray_crosses_def)

lemma square_outside:
  "\<not> polygon_contains [(0, 0), (0, 10), (10, 10), (10, 0), (0, 0)] (11, 11)"
  by (simp add: polygon_contains_def on_segment_def ray_crosses_def)

lemma square_edge:
  "\<not> polygon_contains [(0, 0), (0, 10), (10, 10), (10, 0), (0, 0)] (5, 0)"
  by (simp add: polygon_contains_def on_segment_def ray_crosses_def)

text \<open>
  C6 (as the code has it). When the polygon text of every active zone parses,
  \<^verbatim>\<open>check_geofence_violations\<close> returns, in table order, the entries of exactly the
  active zones whose type is \<^verbatim>\<open>HOSTILE\<close> or \<^verbatim>\<open>RESTRICTED\<close> and whose polygon contains the
  point \<open>(lon, lat)\<close>; and a point that lies on an edge of the polygon is not contained.
\<close>

theorem check_geofence_violations_interior:
  "(list_all (\<lambda>z. wkt_loads (polygon z) \<noteq> None) (filter active (geofences d)) \<longrightarrow>
    check_geofence_violations wkt_loads d position =
      map violation_of
        (filter (\<lambda>z. zone_type z \<in> set [''HOSTILE'', ''RESTRICTED''] \<and>
                   (case wkt_loads (polygon z) of
                      Some poly \<Rightarrow> polygon_contains poly (lon position, lat position)
                    | None \<Rightarrow> False))
           (filter active (geofences d)))) \<and>
   (list_ex (on_segment p) (ring_edges ring) \<longrightarrow> \<not> polygon_contains ring p)"
  by (simp add: check_geofence_violations_def scan_zones_all_parse polygon_contains_def
      del: set_simps)

theorem check_geofence_violations_interior_witness:
  "check_geofence_violations example_wkt_loads
     (zone_db [example_zone ''Z'' ''HOSTILE'' square_wkt]) (at_point 5 5) =
     [violation_of (example_zone ''Z'' ''HOSTILE'' square_wkt)] \<and>
   check_geofence_violations example_wkt_loads
     (zone_db [example_zone ''Z'' ''HOSTILE'' square_wkt]) (at_point 11 11) = []"
  using check_geofence_violations_interior [of example_wkt_loads
          "zone_db [example_zone ''Z'' ''HOSTILE'' square_wkt]" "at_point 5 5"]
        check_geofence_violations_interior [of example_wkt_loads
          "zone_db [example_zone ''Z'' ''HOSTILE'' square_wkt]" "at_point 11 11"]
  by (simp add: zone_db_def example_zone_def example_wkt_loads_def at_point_def
      square_inside square_outside)

text \<open>
  C6 as stated fails. The position \<open>(lat = 0, lon = 5)\<close> lies on an edge of the hostile
  square zone and no violation is returned. And when the polygon text of an active
  zone does not parse, the zones after it are not examined: the position
  \<open>(lat = 5, lon = 5)\<close> inside the hostile square yields no violation.
\<close>

theorem geofence_edge_counterexample:
  "on_segment (5, 0) ((10, 0), (0, 0)) \<and>
   check_geofence_violations example_wkt_loads
     (zone_db [example_zone ''Z'' ''HOSTILE'' square_wkt]) (at_point 0 5) = [] \<and>
   check_geofence_violations example_wkt_loads
     (zone_db [example_zone ''F'' ''FRIENDLY'' ''POLYGON'',
               example_zone ''Z'' ''HOSTILE'' square_wkt]) (at_point 5 5) = []"
  by (simp add: check_geofence_violations_def zone_db_def example_zone_def
      example_wkt_loads_def at_point_def square_edge on_segment_def square_wkt_def)

end
